theory Spec2Isabelle
  imports Main
begin

section \<open>Naive datetimes\<close>

text \<open>
  \<^verbatim>\<open>utils/scheduler.py\<close> works with naive \<^verbatim>\<open>datetime\<close> values only
  (\<^verbatim>\<open>datetime.now()\<close>, \<^verbatim>\<open>datetime.fromisoformat\<close> of what \<^verbatim>\<open>isoformat\<close> wrote).
  A naive datetime is a point of the proleptic Gregorian timeline at microsecond
  resolution; it is modelled as the number of microseconds since
  \<^verbatim>\<open>0001-01-01T00:00:00\<close>. Comparison is comparison of integers, \<^verbatim>\<open>.date()\<close>
  is the day number, and \<^verbatim>\<open>timedelta(days=n)\<close> is \<open>n\<close> whole days.
\<close>

type_synonym datetime = int

datatype error =
    ValidationError | NotFoundError | CorruptStateError
  | OverflowError | ValueError | TypeError | KeyError | AttributeError
  | JSONDecodeError | ScheduleValueError

text \<open>
  The first three constructors are the error names of the specification; no code path of
  the scheduler raises them. The others are the Python exceptions the modelled code can
  meet.
\<close>

definition day_us :: int where
  "day_us = 86400000000"

definition max_datetime :: datetime where
  \<comment> \<open>\<^verbatim>\<open>datetime.max\<close> = 9999-12-31T23:59:59.999999, ordinal 3652059\<close>
  "max_datetime = 3652059 * day_us - 1"

definition date_of :: "datetime \<Rightarrow> int" where
  \<comment> \<open>\<^verbatim>\<open>dt.date()\<close>, as the number of whole days since 0001-01-01\<close>
  "date_of t = t div day_us"

definition add_days :: "datetime \<Rightarrow> int \<Rightarrow> error + datetime" where
  \<comment> \<open>\<^verbatim>\<open>dt + timedelta(days=n)\<close>; both the timedelta and the sum are range checked\<close>
  "add_days t n =
     (if \<bar>n\<bar> > 999999999 then Inl OverflowError
      else let r = t + n * day_us
           in if 0 \<le> r \<and> r \<le> max_datetime then Inr r else Inl OverflowError)"

definition sub_days :: "datetime \<Rightarrow> int \<Rightarrow> error + datetime" where
  \<comment> \<open>\<^verbatim>\<open>dt - timedelta(days=n)\<close>\<close>
  "sub_days t n =
     (if \<bar>n\<bar> > 999999999 then Inl OverflowError
      else let r = t - n * day_us
           in if 0 \<le> r \<and> r \<le> max_datetime then Inr r else Inl OverflowError)"

subsection \<open>Calendar fields and text formats\<close>

definition DAYS_IN_MONTH :: "int list" where
  "DAYS_IN_MONTH = [-1, 31, 28, 31, 30, 31, 30, 31, 31, 30, 31, 30, 31]"

definition DAYS_BEFORE_MONTH :: "int list" where
  "DAYS_BEFORE_MONTH = [-1, 0, 31, 59, 90, 120, 151, 181, 212, 243, 273, 304, 334]"

definition is_leap :: "int \<Rightarrow> bool" where
  "is_leap y = (y mod 4 = 0 \<and> (y mod 100 \<noteq> 0 \<or> y mod 400 = 0))"

definition days_before_year :: "int \<Rightarrow> int" where
  "days_before_year year =
     (let y = year - 1 in y * 365 + y div 4 - y div 100 + y div 400)"

definition days_in_month :: "int \<Rightarrow> int \<Rightarrow> int" where
  "days_in_month year month =
     (if month = 2 \<and> is_leap year then 29 else DAYS_IN_MONTH ! nat month)"

definition days_before_month :: "int \<Rightarrow> int \<Rightarrow> int" where
  "days_before_month year month =
     DAYS_BEFORE_MONTH ! nat month + (if month > 2 \<and> is_leap year then 1 else 0)"

definition ymd2ord :: "int \<Rightarrow> int \<Rightarrow> int \<Rightarrow> int" where
  "ymd2ord year month day = days_before_year year + days_before_month year month + day"

definition ord2ymd :: "int \<Rightarrow> int \<times> int \<times> int" where
  "ord2ymd ordinal =
     (let n0 = ordinal - 1;
          n400 = n0 div 146097; n1 = n0 mod 146097;
          n100 = n1 div 36524; n2 = n1 mod 36524;
          n4 = n2 div 1461; n3 = n2 mod 1461;
          ny = n3 div 365; n = n3 mod 365;
          year = n400 * 400 + 1 + n100 * 100 + n4 * 4 + ny
      in if ny = 4 \<or> n100 = 4 then (year - 1, 12, 31)
         else
           let leapyear = (ny = 3 \<and> (n4 \<noteq> 24 \<or> n100 = 3));
               month = (n + 50) div 32;
               preceding = DAYS_BEFORE_MONTH ! nat month
                           + (if month > 2 \<and> leapyear then 1 else 0)
           in if preceding > n
              then (let month' = month - 1;
                        preceding' = preceding - (DAYS_IN_MONTH ! nat month'
                                       + (if month' = 2 \<and> leapyear then 1 else 0))
                    in (year, month', n - preceding' + 1))
              else (year, month, n - preceding + 1))"

definition digit_char :: "nat \<Rightarrow> char" where
  "digit_char d = char_of (48 + d)"

fun zpad :: "nat \<Rightarrow> nat \<Rightarrow> string" where
  \<comment> \<open>\<^verbatim>\<open>"%0wd" % n\<close> for a value of at most \<open>w\<close> digits\<close>
  "zpad 0 n = []"
| "zpad (Suc w) n = zpad w (n div 10) @ [digit_char (n mod 10)]"

definition strftime_ymd :: "datetime \<Rightarrow> string" where
  \<comment> \<open>\<^verbatim>\<open>dt.strftime("%Y-%m-%d")\<close>\<close>
  "strftime_ymd t =
     (case ord2ymd (date_of t + 1) of (y, m, d) \<Rightarrow>
        zpad 4 (nat y) @ ''-'' @ zpad 2 (nat m) @ ''-'' @ zpad 2 (nat d))"

definition hour_of :: "datetime \<Rightarrow> int" where
  "hour_of t = (t mod day_us) div 3600000000"

definition minute_of :: "datetime \<Rightarrow> int" where
  "minute_of t = ((t mod day_us) div 60000000) mod 60"

definition second_of :: "datetime \<Rightarrow> int" where
  "second_of t = ((t mod day_us) div 1000000) mod 60"

definition microsecond_of :: "datetime \<Rightarrow> int" where
  "microsecond_of t = t mod 1000000"

definition strftime_clock12 :: "datetime \<Rightarrow> string" where
  \<comment> \<open>\<^verbatim>\<open>dt.strftime("%I:%M %p")\<close>\<close>
  "strftime_clock12 t =
     (let h = hour_of t; h12 = (if h mod 12 = 0 then 12 else h mod 12)
      in zpad 2 (nat h12) @ '':'' @ zpad 2 (nat (minute_of t))
           @ (if h < 12 then '' AM'' else '' PM''))"

definition isoformat :: "datetime \<Rightarrow> string" where
  \<comment> \<open>\<^verbatim>\<open>dt.isoformat()\<close>: the fraction is printed only when it is not zero\<close>
  "isoformat t =
     strftime_ymd t @ ''T'' @ zpad 2 (nat (hour_of t)) @ '':'' @ zpad 2 (nat (minute_of t))
       @ '':'' @ zpad 2 (nat (second_of t))
       @ (if microsecond_of t = 0 then [] else ''.'' @ zpad 6 (nat (microsecond_of t)))"

definition is_digit :: "char \<Rightarrow> bool" where
  "is_digit c = ((48::nat) \<le> of_char c \<and> of_char c \<le> (57::nat))"

fun parse_digits_acc :: "nat \<Rightarrow> string \<Rightarrow> nat option" where
  "parse_digits_acc acc [] = Some acc"
| "parse_digits_acc acc (c # cs) =
     (if is_digit c then parse_digits_acc (acc * 10 + (of_char c - (48::nat))) cs else None)"

definition parse_digits :: "string \<Rightarrow> nat option" where
  \<comment> \<open>a non-empty run of ASCII digits, read as a decimal number\<close>
  "parse_digits s = (if s = [] then None else parse_digits_acc 0 s)"

definition parse_iso_date :: "string \<Rightarrow> int option" where
  \<comment> \<open>\<^verbatim>\<open>YYYY-MM-DD\<close> to the ordinal of the day; \<open>None\<close> is \<^verbatim>\<open>ValueError\<close>\<close>
  "parse_iso_date s =
     (if length s \<noteq> 10 \<or> s ! 4 \<noteq> CHR ''-'' \<or> s ! 7 \<noteq> CHR ''-'' then None
      else case (parse_digits (take 4 s), parse_digits (take 2 (drop 5 s)),
                 parse_digits (drop 8 s)) of
        (Some y, Some m, Some d) \<Rightarrow>
          if 1 \<le> y \<and> 1 \<le> m \<and> m \<le> 12 \<and> 1 \<le> d \<and> int d \<le> days_in_month (int y) (int m)
          then Some (ymd2ord (int y) (int m) (int d)) else None
      | _ \<Rightarrow> None)"

definition parse_iso_fraction :: "string \<Rightarrow> int option" where
  \<comment> \<open>\<^verbatim>\<open>.fff\<close> or \<^verbatim>\<open>.ffffff\<close>, or nothing\<close>
  "parse_iso_fraction s =
     (if s = [] then Some 0
      else if hd s \<noteq> CHR ''.'' then None
      else case parse_digits (tl s) of
        None \<Rightarrow> None
      | Some f \<Rightarrow> if length s = 4 then Some (int f * 1000)
                  else if length s = 7 then Some (int f) else None)"

definition parse_iso_time :: "string \<Rightarrow> int option" where
  \<comment> \<open>\<^verbatim>\<open>HH\<close>, \<^verbatim>\<open>HH:MM\<close>, \<^verbatim>\<open>HH:MM:SS\<close> and \<^verbatim>\<open>HH:MM:SS.f\<close> to microseconds of the day\<close>
  "parse_iso_time s =
     (case parse_digits (take 2 s) of
        None \<Rightarrow> None
      | Some h \<Rightarrow>
          if length s < 2 \<or> 24 \<le> h then None
          else if length s = 2 then Some (int h * 3600000000)
          else if length s < 5 \<or> s ! 2 \<noteq> CHR '':'' then None
          else case parse_digits (take 2 (drop 3 s)) of
            None \<Rightarrow> None
          | Some mi \<Rightarrow>
              if 60 \<le> mi then None
              else if length s = 5 then Some (int h * 3600000000 + int mi * 60000000)
              else if length s < 8 \<or> s ! 5 \<noteq> CHR '':'' then None
              else case (parse_digits (take 2 (drop 6 s)), parse_iso_fraction (drop 8 s)) of
                (Some sec, Some f) \<Rightarrow>
                  if 60 \<le> sec then None
                  else Some (int h * 3600000000 + int mi * 60000000 + int sec * 1000000 + f)
              | _ \<Rightarrow> None)"

definition fromisoformat :: "string \<Rightarrow> error + datetime" where
  \<comment> \<open>\<^verbatim>\<open>datetime.fromisoformat\<close> on the naive formats: a date, then optionally any one
      separator character and a time. A text with a UTC offset is not a naive datetime
      and is rejected here.\<close>
  "fromisoformat s =
     (case parse_iso_date (take 10 s) of
        None \<Rightarrow> Inl ValueError
      | Some ordinal \<Rightarrow>
          if length s = 10 then Inr ((ordinal - 1) * day_us)
          else case parse_iso_time (drop 11 s) of
            None \<Rightarrow> Inl ValueError
          | Some us \<Rightarrow> Inr ((ordinal - 1) * day_us + us))"

section \<open>Schedule records\<close>

text \<open>
  The two dataclasses. A field shared by both (\<^verbatim>\<open>id\<close>, \<^verbatim>\<open>is_active\<close>,
  \<^verbatim>\<open>created_at\<close>), \<^verbatim>\<open>times\<close> and \<^verbatim>\<open>notes\<close> carry a prefix, since record fields are
  global names.
\<close>

record MedicationSchedule =
  med_id :: string
  medication_name :: string
  dosage :: string
  med_times :: "string list"
  duration_days :: int
  start_date :: datetime
  end_date :: datetime
  additional_notes :: string
  med_is_active :: bool
  med_created_at :: datetime
  chat_id :: "string option"

record FollowUpSchedule =
  fup_id :: string
  appointment_type :: string
  appointment_date :: datetime
  appointment_time :: string
  location :: string
  fup_notes :: string
  reminder_days_before :: "int list"
  fup_is_active :: bool
  fup_created_at :: datetime

subsection \<open>Python dictionaries\<close>

text \<open>
  A \<^verbatim>\<open>dict\<close> keeps insertion order: assigning to a present key replaces the value in
  place, assigning to a new key appends. \<^verbatim>\<open>d.get(k)\<close> is \<^const>\<open>map_of\<close>.
\<close>

fun dict_set :: "'k \<Rightarrow> 'v \<Rightarrow> ('k \<times> 'v) list \<Rightarrow> ('k \<times> 'v) list" where
  "dict_set k v [] = [(k, v)]"
| "dict_set k v ((k', v') # d) =
     (if k = k' then (k, v) # d else (k', v') # dict_set k v d)"

section \<open>The persisted snapshot\<close>

datatype json =
    JNull | JBool bool | JNum int | JStr string
  | JArr "json list" | JObj "(string \<times> json) list"

text \<open>
  The content of \<^verbatim>\<open>schedules.json\<close>: no file, a text that \<^verbatim>\<open>json.load\<close>
  rejects, or the value \<^verbatim>\<open>json.load\<close> returns.
\<close>

datatype snapshot_file = Absent | Garbage | Json json

definition med_to_json :: "MedicationSchedule \<Rightarrow> json" where
  "med_to_json m = JObj
     [(''id'', JStr (med_id m)),
      (''medication_name'', JStr (medication_name m)),
      (''dosage'', JStr (dosage m)),
      (''times'', JArr (map JStr (med_times m))),
      (''duration_days'', JNum (duration_days m)),
      (''start_date'', JStr (isoformat (start_date m))),
      (''end_date'', JStr (isoformat (end_date m))),
      (''additional_notes'', JStr (additional_notes m)),
      (''is_active'', JBool (med_is_active m)),
      (''created_at'', JStr (isoformat (med_created_at m)))]"

definition fup_to_json :: "FollowUpSchedule \<Rightarrow> json" where
  "fup_to_json f = JObj
     [(''id'', JStr (fup_id f)),
      (''appointment_type'', JStr (appointment_type f)),
      (''appointment_date'', JStr (isoformat (appointment_date f))),
      (''appointment_time'', JStr (appointment_time f)),
      (''location'', JStr (location f)),
      (''notes'', JStr (fup_notes f)),
      (''reminder_days_before'', JArr (map JNum (reminder_days_before f))),
      (''is_active'', JBool (fup_is_active f)),
      (''created_at'', JStr (isoformat (fup_created_at f)))]"


section \<open>The job registry of the \<^verbatim>\<open>schedule\<close> package\<close>

text \<open>
  The scheduler registers its reminders with the third-party package \<^verbatim>\<open>schedule\<close>
  (\<^verbatim>\<open>schedule.every().day.at(t).do(f, ...)\<close>) and its loop calls
  \<^verbatim>\<open>schedule.run_pending()\<close>. The package is not part of the repository; this section
  models the part of its behaviour the scheduler relies on: \<^verbatim>\<open>at\<close> accepts
  \<^verbatim>\<open>HH:MM\<close> and \<^verbatim>\<open>HH:MM:SS\<close> with an hour below 24 and raises
  \<^verbatim>\<open>ScheduleValueError\<close> otherwise, \<^verbatim>\<open>do\<close> appends one job to the registry, due
  at the next moment of that wall-clock time, and \<^verbatim>\<open>run_pending\<close> runs every job
  whose due time has been reached, in the order of the due times, and moves each one to
  the next moment of its wall-clock time.
\<close>

datatype callback =
    SendMedicationReminder string
  | SendFollowupReminder string int

record job =
  at_time :: int
  next_run :: datetime
  last_run :: "datetime option"
  job_func :: callback

definition parse_at_time :: "string \<Rightarrow> error + int" where
  \<comment> \<open>the time of day in microseconds after midnight\<close>
  "parse_at_time s =
     (if (length s = 5 \<or> length s = 8) \<and> s ! 2 = CHR '':''
         \<and> (if length s = 8 then s ! 5 = CHR '':'' else True)
      then case (parse_digits (take 2 s), parse_digits (take 2 (drop 3 s)),
                 if length s = 8 then parse_digits (drop 6 s) else Some 0) of
        (Some h, Some mi, Some sec) \<Rightarrow>
          if h \<le> 23 \<and> mi \<le> 59 \<and> sec \<le> 59
          then Inr (int h * 3600000000 + int mi * 60000000 + int sec * 1000000)
          else Inl ScheduleValueError
      | _ \<Rightarrow> Inl ScheduleValueError
      else Inl ScheduleValueError)"

definition next_occurrence :: "datetime \<Rightarrow> int \<Rightarrow> datetime" where
  \<comment> \<open>the first moment strictly after \<open>now\<close> whose time of day is \<open>tod\<close>\<close>
  "next_occurrence now tod =
     (let today = date_of now * day_us + tod
      in if today > now then today else today + day_us)"

definition new_job :: "datetime \<Rightarrow> int \<Rightarrow> callback \<Rightarrow> job" where
  "new_job now tod f =
     \<lparr>at_time = tod, next_run = next_occurrence now tod, last_run = None, job_func = f\<rparr>"

definition should_run :: "datetime \<Rightarrow> job \<Rightarrow> bool" where
  "should_run now j = (now \<ge> next_run j)"

definition reschedule :: "datetime \<Rightarrow> job \<Rightarrow> job" where
  "reschedule now j = j\<lparr>last_run := Some now, next_run := next_occurrence now (at_time j)\<rparr>"

section \<open>The scheduler object\<close>

text \<open>
  \<^verbatim>\<open>HealthcareScheduler\<close>: the two registries, the file \<^verbatim>\<open>schedules.json\<close> it
  writes and reads, and the job registry its callbacks are registered in. The thread
  handle and the \<^verbatim>\<open>is_running\<close> flag only start and stop the polling loop, whose
  iterations are the ticks of \<open>run_scheduler\<close> below.
\<close>

record scheduler =
  medication_schedules :: "(string \<times> MedicationSchedule) list"
  followup_schedules :: "(string \<times> FollowUpSchedule) list"
  schedules_json :: snapshot_file
  jobs :: "job list"

text \<open>What the Telegram sender is asked to send: the arguments of the two calls.\<close>

datatype delivery =
    MedicationReminder "string option" string string string string
  | FollowUpReminder string string string string string

subsection \<open>Saving\<close>

definition snapshot ::
  "(string \<times> MedicationSchedule) list \<Rightarrow> (string \<times> FollowUpSchedule) list \<Rightarrow> json" where
  "snapshot meds fups = JObj
     [(''medications'', JArr (map (\<lambda>kv. med_to_json (snd kv)) meds)),
      (''followups'', JArr (map (\<lambda>kv. fup_to_json (snd kv)) fups))]"

definition save_schedules :: "scheduler \<Rightarrow> scheduler" where
  "save_schedules s =
     s\<lparr>schedules_json := Json (snapshot (medication_schedules s) (followup_schedules s))\<rparr>"

subsection \<open>Loading\<close>

definition bindE :: "error + 'a \<Rightarrow> ('a \<Rightarrow> error + 'b) \<Rightarrow> error + 'b" where
  "bindE r f = (case r of Inl e \<Rightarrow> Inl e | Inr a \<Rightarrow> f a)"

definition subscript :: "json \<Rightarrow> string \<Rightarrow> error + json" where
  \<comment> \<open>\<^verbatim>\<open>d['key']\<close>\<close>
  "subscript d k =
     (case d of
        JObj kvs \<Rightarrow> (case map_of kvs k of None \<Rightarrow> Inl KeyError | Some v \<Rightarrow> Inr v)
      | _ \<Rightarrow> Inl TypeError)"

definition get_or_empty :: "json \<Rightarrow> string \<Rightarrow> error + json" where
  \<comment> \<open>\<^verbatim>\<open>data.get('key', [])\<close>\<close>
  "get_or_empty d k =
     (case d of
        JObj kvs \<Rightarrow> (case map_of kvs k of None \<Rightarrow> Inr (JArr []) | Some v \<Rightarrow> Inr v)
      | _ \<Rightarrow> Inl AttributeError)"

definition iterate :: "json \<Rightarrow> error + json list" where
  \<comment> \<open>what a \<^verbatim>\<open>for\<close> loop over the value visits: the items of an array, the keys of
      an object, the characters of a string\<close>
  "iterate v =
     (case v of
        JArr xs \<Rightarrow> Inr xs
      | JObj kvs \<Rightarrow> Inr (map (\<lambda>kv. JStr (fst kv)) kvs)
      | JStr cs \<Rightarrow> Inr (map (\<lambda>c. JStr [c]) cs)
      | _ \<Rightarrow> Inl TypeError)"

text \<open>
  The dataclasses do not check the types of their fields. The records of this model are
  typed as the annotations say, so a JSON value of another type is a \<^verbatim>\<open>TypeError\<close>
  here.
\<close>

definition as_str :: "json \<Rightarrow> error + string" where
  "as_str v = (case v of JStr x \<Rightarrow> Inr x | _ \<Rightarrow> Inl TypeError)"

definition as_int :: "json \<Rightarrow> error + int" where
  "as_int v = (case v of JNum n \<Rightarrow> Inr n | _ \<Rightarrow> Inl TypeError)"

definition as_bool :: "json \<Rightarrow> error + bool" where
  "as_bool v = (case v of JBool b \<Rightarrow> Inr b | _ \<Rightarrow> Inl TypeError)"

fun all_of :: "('a \<Rightarrow> error + 'b) \<Rightarrow> 'a list \<Rightarrow> error + 'b list" where
  "all_of f [] = Inr []"
| "all_of f (x # xs) = bindE (f x) (\<lambda>y. bindE (all_of f xs) (\<lambda>ys. Inr (y # ys)))"

definition as_list :: "(json \<Rightarrow> error + 'b) \<Rightarrow> json \<Rightarrow> error + 'b list" where
  "as_list f v = (case v of JArr xs \<Rightarrow> all_of f xs | _ \<Rightarrow> Inl TypeError)"

definition as_datetime :: "json \<Rightarrow> error + datetime" where
  \<comment> \<open>\<^verbatim>\<open>datetime.fromisoformat(v)\<close>\<close>
  "as_datetime v = (case v of JStr x \<Rightarrow> fromisoformat x | _ \<Rightarrow> Inl TypeError)"

definition med_from_json :: "json \<Rightarrow> error + MedicationSchedule" where
  "med_from_json d =
     bindE (bindE (subscript d ''id'') as_str) (\<lambda>i.
     bindE (bindE (subscript d ''medication_name'') as_str) (\<lambda>name.
     bindE (bindE (subscript d ''dosage'') as_str) (\<lambda>dos.
     bindE (bindE (subscript d ''times'') (as_list as_str)) (\<lambda>ts.
     bindE (bindE (subscript d ''duration_days'') as_int) (\<lambda>dur.
     bindE (bindE (subscript d ''start_date'') as_datetime) (\<lambda>sd.
     bindE (bindE (subscript d ''end_date'') as_datetime) (\<lambda>ed.
     bindE (bindE (subscript d ''additional_notes'') as_str) (\<lambda>an.
     bindE (bindE (subscript d ''is_active'') as_bool) (\<lambda>act.
     bindE (bindE (subscript d ''created_at'') as_datetime) (\<lambda>cr.
     Inr \<lparr>med_id = i, medication_name = name, dosage = dos, med_times = ts,
          duration_days = dur, start_date = sd, end_date = ed, additional_notes = an,
          med_is_active = act, med_created_at = cr, chat_id = None\<rparr>))))))))))"

definition fup_from_json :: "json \<Rightarrow> error + FollowUpSchedule" where
  "fup_from_json d =
     bindE (bindE (subscript d ''id'') as_str) (\<lambda>i.
     bindE (bindE (subscript d ''appointment_type'') as_str) (\<lambda>ty.
     bindE (bindE (subscript d ''appointment_date'') as_datetime) (\<lambda>ad.
     bindE (bindE (subscript d ''appointment_time'') as_str) (\<lambda>tm.
     bindE (bindE (subscript d ''location'') as_str) (\<lambda>loc.
     bindE (bindE (subscript d ''notes'') as_str) (\<lambda>nt.
     bindE (bindE (subscript d ''reminder_days_before'') (as_list as_int)) (\<lambda>rdb.
     bindE (bindE (subscript d ''is_active'') as_bool) (\<lambda>act.
     bindE (bindE (subscript d ''created_at'') as_datetime) (\<lambda>cr.
     Inr \<lparr>fup_id = i, appointment_type = ty, appointment_date = ad, appointment_time = tm,
          location = loc, fup_notes = nt, reminder_days_before = rdb,
          fup_is_active = act, fup_created_at = cr\<rparr>)))))))))"

text \<open>
  The two loading loops. Each entry is stored as soon as it is built, so an exception at
  a later entry leaves the earlier ones in the registry; the loops return the registry
  and the exception that ended them, if any.
\<close>

fun load_medications ::
  "json list \<Rightarrow> (string \<times> MedicationSchedule) list
     \<Rightarrow> (string \<times> MedicationSchedule) list \<times> error option" where
  "load_medications [] d = (d, None)"
| "load_medications (x # xs) d =
     (case med_from_json x of
        Inl e \<Rightarrow> (d, Some e)
      | Inr m \<Rightarrow> load_medications xs (dict_set (med_id m) m d))"

fun load_followups ::
  "json list \<Rightarrow> (string \<times> FollowUpSchedule) list
     \<Rightarrow> (string \<times> FollowUpSchedule) list \<times> error option" where
  "load_followups [] d = (d, None)"
| "load_followups (x # xs) d =
     (case fup_from_json x of
        Inl e \<Rightarrow> (d, Some e)
      | Inr f \<Rightarrow> load_followups xs (dict_set (fup_id f) f d))"

definition load_body :: "scheduler \<Rightarrow> scheduler \<times> error option" where
  \<comment> \<open>the \<^verbatim>\<open>try\<close> block of \<^verbatim>\<open>_load_schedules\<close>: the state it reaches and the
      exception that left it, if any\<close>
  "load_body s =
     (case schedules_json s of
        Absent \<Rightarrow> (s, None)
      | Garbage \<Rightarrow> (s, Some JSONDecodeError)
      | Json data \<Rightarrow>
          (case bindE (get_or_empty data ''medications'') iterate of
             Inl e \<Rightarrow> (s, Some e)
           | Inr ms \<Rightarrow>
               (case load_medications ms (medication_schedules s) of
                  (meds, Some e) \<Rightarrow> (s\<lparr>medication_schedules := meds\<rparr>, Some e)
                | (meds, None) \<Rightarrow>
                    (let s1 = s\<lparr>medication_schedules := meds\<rparr>
                     in case bindE (get_or_empty data ''followups'') iterate of
                          Inl e \<Rightarrow> (s1, Some e)
                        | Inr fs \<Rightarrow>
                            (case load_followups fs (followup_schedules s1) of
                               (fups, err) \<Rightarrow> (s1\<lparr>followup_schedules := fups\<rparr>, err))))))"

definition load_schedules :: "scheduler \<Rightarrow> (error + unit) \<times> scheduler" where
  \<comment> \<open>\<^verbatim>\<open>_load_schedules\<close>: \<^verbatim>\<open>except Exception\<close> logs the exception and the
      method returns normally\<close>
  "load_schedules s = (Inr (), fst (load_body s))"

definition new_scheduler :: "snapshot_file \<Rightarrow> job list \<Rightarrow> scheduler" where
  \<comment> \<open>\<^verbatim>\<open>HealthcareScheduler()\<close>, given the file on disk and the process-wide job
      registry; the Telegram sender is taken to be configured, so that its constructor
      returns\<close>
  "new_scheduler file js =
     snd (load_schedules \<lparr>medication_schedules = [], followup_schedules = [],
                           schedules_json = file, jobs = js\<rparr>)"


subsection \<open>Registering the reminders\<close>

fun schedule_medication_jobs :: "datetime \<Rightarrow> string \<Rightarrow> string list \<Rightarrow> job list \<Rightarrow> job list" where
  \<comment> \<open>the loop over \<^verbatim>\<open>times\<close>; a rejected time raises, which ends the loop\<close>
  "schedule_medication_jobs now sid [] js = js"
| "schedule_medication_jobs now sid (time_str # rest) js =
     (case parse_at_time time_str of
        Inl e \<Rightarrow> js
      | Inr tod \<Rightarrow>
          schedule_medication_jobs now sid rest
            (js @ [new_job now tod (SendMedicationReminder sid)]))"

definition schedule_medication_reminders ::
  "datetime \<Rightarrow> MedicationSchedule \<Rightarrow> scheduler \<Rightarrow> scheduler" where
  "schedule_medication_reminders now m s =
     s\<lparr>jobs := schedule_medication_jobs now (med_id m) (med_times m) (jobs s)\<rparr>"




subsection \<open>Adding schedules\<close>

text \<open>
  \<open>now\<close> is the clock reading of the call and \<open>schedule_id\<close> the text of the
  \<^verbatim>\<open>uuid.uuid4()\<close> it draws. An exception of the body is logged and raised again.
\<close>

definition add_medication_schedule ::
  "datetime \<Rightarrow> string \<Rightarrow> string \<Rightarrow> string \<Rightarrow> string list \<Rightarrow> int \<Rightarrow> datetime option
     \<Rightarrow> string \<Rightarrow> string option \<Rightarrow> scheduler \<Rightarrow> (error + string) \<times> scheduler" where
  "add_medication_schedule now schedule_id name dos times_arg duration start_arg
       notes_arg chat s =
     (let start = (case start_arg of None \<Rightarrow> now | Some d \<Rightarrow> d)
      in case add_days start duration of
           Inl e \<Rightarrow> (Inl e, s)
         | Inr finish \<Rightarrow>
             (let m = \<lparr>med_id = schedule_id, medication_name = name, dosage = dos,
                       med_times = times_arg, duration_days = duration, start_date = start,
                       end_date = finish, additional_notes = notes_arg,
                       med_is_active = True, med_created_at = now, chat_id = None\<rparr>;
                  m' = (if chat \<noteq> None \<and> chat \<noteq> Some [] then m\<lparr>chat_id := chat\<rparr> else m);
                  s1 = s\<lparr>medication_schedules :=
                          dict_set schedule_id m' (medication_schedules s)\<rparr>;
                  s2 = schedule_medication_reminders now m' s1
              in (Inr schedule_id, save_schedules s2)))"


subsection \<open>Dispatch\<close>

definition send_medication_reminder ::
  "datetime \<Rightarrow> string \<Rightarrow> scheduler \<Rightarrow> scheduler \<times> delivery list" where
  "send_medication_reminder now schedule_id s =
     (case map_of (medication_schedules s) schedule_id of
        None \<Rightarrow> (s, [])
      | Some m \<Rightarrow>
          if \<not> med_is_active m then (s, [])
          else if now > end_date m
          then (save_schedules
                  (s\<lparr>medication_schedules :=
                       dict_set schedule_id (m\<lparr>med_is_active := False\<rparr>)
                         (medication_schedules s)\<rparr>), [])
          else (s, [MedicationReminder (chat_id m) (medication_name m) (dosage m)
                      (strftime_clock12 now) (additional_notes m)]))"

definition send_followup_reminder ::
  "datetime \<Rightarrow> string \<Rightarrow> int \<Rightarrow> scheduler \<Rightarrow> scheduler \<times> delivery list" where
  "send_followup_reminder now schedule_id days_before s =
     (case map_of (followup_schedules s) schedule_id of
        None \<Rightarrow> (s, [])
      | Some f \<Rightarrow>
          if \<not> fup_is_active f then (s, [])
          else case sub_days (appointment_date f) days_before of
                 Inl e \<Rightarrow> (s, [])
               | Inr reminder_date \<Rightarrow>
                   if date_of reminder_date \<noteq> date_of now then (s, [])
                   else (s, [FollowUpReminder (appointment_type f)
                               (strftime_ymd (appointment_date f)) (appointment_time f)
                               (location f) (fup_notes f)]))"

subsection \<open>Stopping and listing\<close>

definition stop_medication_schedule :: "string \<Rightarrow> scheduler \<Rightarrow> (error + bool) \<times> scheduler" where
  "stop_medication_schedule schedule_id s =
     (case map_of (medication_schedules s) schedule_id of
        Some m \<Rightarrow>
          (Inr True,
           save_schedules
             (s\<lparr>medication_schedules :=
                  dict_set schedule_id (m\<lparr>med_is_active := False\<rparr>) (medication_schedules s)\<rparr>))
      | None \<Rightarrow> (Inr False, s))"

definition stop_followup_schedule :: "string \<Rightarrow> scheduler \<Rightarrow> (error + bool) \<times> scheduler" where
  "stop_followup_schedule schedule_id s =
     (case map_of (followup_schedules s) schedule_id of
        Some f \<Rightarrow>
          (Inr True,
           save_schedules
             (s\<lparr>followup_schedules :=
                  dict_set schedule_id (f\<lparr>fup_is_active := False\<rparr>) (followup_schedules s)\<rparr>))
      | None \<Rightarrow> (Inr False, s))"

definition get_active_schedules ::
  "datetime \<Rightarrow> scheduler
     \<Rightarrow> (string \<times> MedicationSchedule) list \<times> (string \<times> FollowUpSchedule) list" where
  "get_active_schedules now s =
     (filter (\<lambda>kv. med_is_active (snd kv) \<and> now \<le> end_date (snd kv)) (medication_schedules s),
      filter (\<lambda>kv. fup_is_active (snd kv) \<and> appointment_date (snd kv) > now)
        (followup_schedules s))"

subsection \<open>The polling loop\<close>

definition run_job :: "datetime \<Rightarrow> job \<Rightarrow> scheduler \<Rightarrow> scheduler \<times> delivery list" where
  "run_job now j s =
     (case job_func j of
        SendMedicationReminder sid \<Rightarrow> send_medication_reminder now sid s
      | SendFollowupReminder sid days_before \<Rightarrow> send_followup_reminder now sid days_before s)"

fun run_jobs ::
  "datetime \<Rightarrow> job list \<Rightarrow> scheduler \<Rightarrow> scheduler \<times> (job \<times> delivery) list" where
  "run_jobs now [] s = (s, [])"
| "run_jobs now (j # js) s =
     (case run_job now j s of
        (s1, out) \<Rightarrow>
          (case run_jobs now js s1 of
             (s2, outs) \<Rightarrow> (s2, map (\<lambda>d. (j, d)) out @ outs)))"

definition run_pending :: "datetime \<Rightarrow> scheduler \<Rightarrow> scheduler \<times> (job \<times> delivery) list" where
  \<comment> \<open>one tick: the due jobs run in the order of their due times; the result lists each
      delivery with the job that made it\<close>
  "run_pending now s =
     (case run_jobs now (sort_key next_run (filter (should_run now) (jobs s))) s of
        (s1, outs) \<Rightarrow>
          (s1\<lparr>jobs := map (\<lambda>j. if should_run now j then reschedule now j else j) (jobs s1)\<rparr>,
           outs))"

fun run_scheduler ::
  "datetime list \<Rightarrow> scheduler \<Rightarrow> scheduler \<times> (datetime \<times> job \<times> delivery) list" where
  \<comment> \<open>the loop of \<^verbatim>\<open>start_scheduler\<close> over the clock readings of its iterations;
      the result lists each delivery with the clock reading and the job that made it\<close>
  "run_scheduler [] s = (s, [])"
| "run_scheduler (now # later) s =
     (case run_pending now s of
        (s1, out) \<Rightarrow>
          (case run_scheduler later s1 of
             (s2, outs) \<Rightarrow> (s2, map (\<lambda>jd. (now, jd)) out @ outs)))"


section \<open>Example data\<close>

definition example_medication :: MedicationSchedule where
  \<comment> \<open>one day of Lisinopril from 2024-01-15T08:00:00\<close>
  "example_medication =
     \<lparr>med_id = ''med-1'', medication_name = ''Lisinopril'', dosage = ''10mg'',
      med_times = [''08:00'', ''20:00''], duration_days = 1,
      start_date = 63840902400000000, end_date = 63840988800000000,
      additional_notes = ''Take with food'', med_is_active = True,
      med_created_at = 63840902400000000, chat_id = Some ''12345''\<rparr>"

definition example_followup :: FollowUpSchedule where
  \<comment> \<open>an appointment on 2024-01-25T14:30:00\<close>
  "example_followup =
     \<lparr>fup_id = ''fup-1'', appointment_type = ''Cardiology Follow-up'',
      appointment_date = 63841789800000000, appointment_time = ''2:30 PM'',
      location = ''Room 302'', fup_notes = ''Bring your medication list'',
      reminder_days_before = [1, 3, 7], fup_is_active = True,
      fup_created_at = 63840902400000000\<rparr>"

definition example_scheduler :: scheduler where
  "example_scheduler =
     \<lparr>medication_schedules = [(''med-1'', example_medication)],
      followup_schedules = [(''fup-1'', example_followup)],
      schedules_json = Absent, jobs = []\<rparr>"

definition med_inactive :: "string \<Rightarrow> scheduler \<Rightarrow> bool" where
  "med_inactive sid s =
     (case map_of (medication_schedules s) sid of
        None \<Rightarrow> False | Some m \<Rightarrow> \<not> med_is_active m)"








section \<open>The operations of a scheduler object\<close>











section \<open>Dictionary facts\<close>


lemma map_of_dict_set: "map_of (dict_set k v d) = (map_of d)(k \<mapsto> v)"
  by (induction d) (auto simp: fun_eq_iff)

lemma keys_dict_set_present:
  "map_of d k = Some v' \<Longrightarrow> map fst (dict_set k v d) = map fst d"
  by (induction d) (auto split: if_splits)

lemma dict_set_twice: "dict_set k v (dict_set k v' d) = dict_set k v d"
  by (induction d) auto

section \<open>Expiry of medication schedules\<close>

lemma send_medication_reminder_keeps_inactive:
  "med_inactive sid s \<Longrightarrow> med_inactive sid (fst (send_medication_reminder now sid' s))"
  by (auto simp: med_inactive_def send_medication_reminder_def save_schedules_def
      map_of_dict_set split: option.splits)

lemma send_followup_reminder_state:
  "fst (send_followup_reminder now sid' n s) = s"
  by (auto simp: send_followup_reminder_def split: option.splits sum.splits)

lemma run_job_keeps_inactive:
  "med_inactive sid s \<Longrightarrow> med_inactive sid (fst (run_job now j s))"
  by (cases "job_func j")
     (simp_all add: run_job_def send_medication_reminder_keeps_inactive
       send_followup_reminder_state)

lemma run_job_inactive_silent:
  "med_inactive sid s \<Longrightarrow> job_func j = SendMedicationReminder sid \<Longrightarrow>
   snd (run_job now j s) = []"
  by (auto simp: run_job_def med_inactive_def send_medication_reminder_def
      split: option.splits)

lemma run_jobs_inactive:
  "med_inactive sid s \<Longrightarrow>
   med_inactive sid (fst (run_jobs now js s)) \<and>
   (\<forall>jd \<in> set (snd (run_jobs now js s)). job_func (fst jd) \<noteq> SendMedicationReminder sid)"
proof (induction js arbitrary: s)
  case Nil
  then show ?case by simp
next
  case (Cons j js)
  obtain s1 out where r1: "run_job now j s = (s1, out)" by (cases "run_job now j s")
  obtain s2 outs where r2: "run_jobs now js s1 = (s2, outs)" by (cases "run_jobs now js s1")
  have i1: "med_inactive sid s1"
    using run_job_keeps_inactive [OF Cons.prems, of now j] r1 by simp
  have quiet: "job_func j = SendMedicationReminder sid \<Longrightarrow> out = []"
    using run_job_inactive_silent [OF Cons.prems, of j now] r1 by simp
  from Cons.IH [OF i1] r2 have
    "med_inactive sid s2" and
    "\<forall>jd \<in> set outs. job_func (fst jd) \<noteq> SendMedicationReminder sid" by simp_all
  then show ?case using r1 r2 quiet by auto
qed

lemma med_inactive_jobs_update [simp]:
  "med_inactive sid (s\<lparr>jobs := js\<rparr>) = med_inactive sid s"
  by (simp add: med_inactive_def)

lemma run_pending_inactive:
  "med_inactive sid s \<Longrightarrow>
   med_inactive sid (fst (run_pending now s)) \<and>
   (\<forall>jd \<in> set (snd (run_pending now s)). job_func (fst jd) \<noteq> SendMedicationReminder sid)"
  using run_jobs_inactive [of sid s now "sort_key next_run (filter (should_run now) (jobs s))"]
  by (auto simp: run_pending_def split: prod.splits)

lemma run_scheduler_inactive:
  "med_inactive sid s \<Longrightarrow>
   med_inactive sid (fst (run_scheduler ticks s)) \<and>
   (\<forall>e \<in> set (snd (run_scheduler ticks s)).
      job_func (fst (snd e)) \<noteq> SendMedicationReminder sid)"
proof (induction ticks arbitrary: s)
  case Nil
  then show ?case by simp
next
  case (Cons now later)
  obtain s1 out where r1: "run_pending now s = (s1, out)" by (cases "run_pending now s")
  obtain s2 outs where r2: "run_scheduler later s1 = (s2, outs)"
    by (cases "run_scheduler later s1")
  from run_pending_inactive [OF Cons.prems, of now] r1 have
    i1: "med_inactive sid s1" and
    q1: "\<forall>jd \<in> set out. job_func (fst jd) \<noteq> SendMedicationReminder sid" by simp_all
  from Cons.IH [OF i1] r2 q1 r1 show ?case by auto
qed

section \<open>Stopping a schedule\<close>

text \<open>
  Claim C7, as stated, fails: for an unknown id the stop operations do not fail with
  \<^verbatim>\<open>NotFoundError\<close>; they return the value \<^verbatim>\<open>False\<close> and leave the state as it
  is.
\<close>

theorem stop_unknown_id_counterexample:
  "stop_medication_schedule ''no-such-id'' (new_scheduler Absent []) =
     (Inr False, new_scheduler Absent []) \<and>
   stop_followup_schedule ''no-such-id'' (new_scheduler Absent []) =
     (Inr False, new_scheduler Absent []) \<and>
   fst (stop_medication_schedule ''no-such-id'' (new_scheduler Absent [])) \<noteq> Inl NotFoundError \<and>
   fst (stop_followup_schedule ''no-such-id'' (new_scheduler Absent [])) \<noteq> Inl NotFoundError"
  by (simp add: stop_medication_schedule_def stop_followup_schedule_def new_scheduler_def
      load_schedules_def load_body_def)

text \<open>
  Claim C7, amended. For every id, the stop operation of a known id returns
  \<^verbatim>\<open>True\<close>, leaves that schedule inactive and writes the snapshot file; for an unknown
  id it returns \<^verbatim>\<open>False\<close> and changes nothing; stopping a stopped schedule again
  returns \<^verbatim>\<open>True\<close> and leaves the state unchanged.
\<close>

theorem stop_schedule_behaviour:
  "(case map_of (medication_schedules s) sid of
      None \<Rightarrow> stop_medication_schedule sid s = (Inr False, s)
    | Some m \<Rightarrow>
        (let s' = snd (stop_medication_schedule sid s)
         in fst (stop_medication_schedule sid s) = Inr True \<and>
            map_of (medication_schedules s') sid = Some (m\<lparr>med_is_active := False\<rparr>) \<and>
            schedules_json s' =
              Json (snapshot (medication_schedules s') (followup_schedules s')) \<and>
            stop_medication_schedule sid s' = (Inr True, s'))) \<and>
   (case map_of (followup_schedules s) sid of
      None \<Rightarrow> stop_followup_schedule sid s = (Inr False, s)
    | Some f \<Rightarrow>
        (let s' = snd (stop_followup_schedule sid s)
         in fst (stop_followup_schedule sid s) = Inr True \<and>
            map_of (followup_schedules s') sid = Some (f\<lparr>fup_is_active := False\<rparr>) \<and>
            schedules_json s' =
              Json (snapshot (medication_schedules s') (followup_schedules s')) \<and>
            stop_followup_schedule sid s' = (Inr True, s')))"
  by (simp add: stop_medication_schedule_def stop_followup_schedule_def save_schedules_def
      map_of_dict_set dict_set_twice Let_def split: option.splits)

theorem stop_schedule_behaviour_witness:
  "map_of (medication_schedules example_scheduler) ''med-1'' = Some example_medication \<and>
   fst (stop_medication_schedule ''med-1'' example_scheduler) = Inr True \<and>
   stop_medication_schedule ''med-1'' (snd (stop_medication_schedule ''med-1'' example_scheduler))
     = (Inr True, snd (stop_medication_schedule ''med-1'' example_scheduler)) \<and>
   map_of (followup_schedules example_scheduler) ''med-1'' = None \<and>
   stop_followup_schedule ''med-1'' example_scheduler = (Inr False, example_scheduler)"
proof -
  have h1: "map_of (medication_schedules example_scheduler) ''med-1'' = Some example_medication"
    by (simp add: example_scheduler_def)
  have h2: "map_of (followup_schedules example_scheduler) ''med-1'' = None"
    by (simp add: example_scheduler_def)
  show ?thesis
    using stop_schedule_behaviour [where s = example_scheduler and sid = "''med-1''"] h1 h2
    by (simp add: Let_def)
qed

text \<open>
  Claim C10. Stopping a schedule that is present changes only the \<^verbatim>\<open>is_active\<close> field
  of that schedule: the keys of its registry and their order, every other entry of it,
  the other registry and the registered jobs are as before.
\<close>

theorem stop_schedule_frame:
  "(map_of (medication_schedules s) sid = Some m \<longrightarrow>
      (let s' = snd (stop_medication_schedule sid s)
       in map_of (medication_schedules s') sid = Some (m\<lparr>med_is_active := False\<rparr>) \<and>
          map fst (medication_schedules s') = map fst (medication_schedules s) \<and>
          (\<forall>k. k \<noteq> sid \<longrightarrow>
             map_of (medication_schedules s') k = map_of (medication_schedules s) k) \<and>
          followup_schedules s' = followup_schedules s \<and> jobs s' = jobs s)) \<and>
   (map_of (followup_schedules s) sid = Some f \<longrightarrow>
      (let s' = snd (stop_followup_schedule sid s)
       in map_of (followup_schedules s') sid = Some (f\<lparr>fup_is_active := False\<rparr>) \<and>
          map fst (followup_schedules s') = map fst (followup_schedules s) \<and>
          (\<forall>k. k \<noteq> sid \<longrightarrow>
             map_of (followup_schedules s') k = map_of (followup_schedules s) k) \<and>
          medication_schedules s' = medication_schedules s \<and> jobs s' = jobs s))"
  by (auto simp: stop_medication_schedule_def stop_followup_schedule_def save_schedules_def
      map_of_dict_set Let_def keys_dict_set_present)

theorem stop_schedule_frame_witness:
  "map_of (medication_schedules example_scheduler) ''med-1'' = Some example_medication \<and>
   map_of (followup_schedules example_scheduler) ''fup-1'' = Some example_followup \<and>
   medication_schedules (snd (stop_medication_schedule ''med-1'' example_scheduler)) =
     [(''med-1'', example_medication\<lparr>med_is_active := False\<rparr>)] \<and>
   followup_schedules (snd (stop_medication_schedule ''med-1'' example_scheduler)) =
     followup_schedules example_scheduler \<and>
   medication_schedules (snd (stop_followup_schedule ''fup-1'' example_scheduler)) =
     medication_schedules example_scheduler"
proof -
  have h1: "map_of (medication_schedules example_scheduler) ''med-1'' = Some example_medication"
    by (simp add: example_scheduler_def)
  have h2: "map_of (followup_schedules example_scheduler) ''fup-1'' = Some example_followup"
    by (simp add: example_scheduler_def)
  have shape: "medication_schedules (snd (stop_medication_schedule ''med-1'' example_scheduler)) =
     [(''med-1'', example_medication\<lparr>med_is_active := False\<rparr>)]"
    by (simp add: stop_medication_schedule_def example_scheduler_def save_schedules_def)
  show ?thesis
    using stop_schedule_frame [where s = example_scheduler and sid = "''med-1''"
        and m = example_medication and f = example_followup]
      stop_schedule_frame [where s = example_scheduler and sid = "''fup-1''"
        and m = example_medication and f = example_followup] h1 h2 shape
    by (simp add: Let_def)
qed

section \<open>The view of the active schedules\<close>

text \<open>
  Claim C8. At every query time the view of the active schedules holds exactly the
  medication schedules that are active with \<open>now \<le> end_date\<close>, and exactly the
  follow-up schedules that are active with an appointment date strictly after \<open>now\<close>.
\<close>

theorem get_active_schedules_exact:
  "((k, m) \<in> set (fst (get_active_schedules now s)) \<longleftrightarrow>
      (k, m) \<in> set (medication_schedules s) \<and> med_is_active m \<and> now \<le> end_date m) \<and>
   ((k', f) \<in> set (snd (get_active_schedules now s)) \<longleftrightarrow>
      (k', f) \<in> set (followup_schedules s) \<and> fup_is_active f \<and> now < appointment_date f)"
  by (auto simp: get_active_schedules_def)

theorem get_active_schedules_witness:
  "fst (get_active_schedules 63840902400000000 example_scheduler) =
     [(''med-1'', example_medication)] \<and>
   fst (get_active_schedules 63841000000000000 example_scheduler) = [] \<and>
   (''fup-1'', example_followup)
     \<in> set (snd (get_active_schedules 63840902400000000 example_scheduler))"
proof -
  have a: "(''fup-1'', example_followup) \<in> set (followup_schedules example_scheduler)"
    by (simp add: example_scheduler_def)
  have b: "fup_is_active example_followup \<and> 63840902400000000 < appointment_date example_followup"
    by (simp add: example_followup_def)
  have c: "(''fup-1'', example_followup)
     \<in> set (snd (get_active_schedules 63840902400000000 example_scheduler))"
    using get_active_schedules_exact [where k = "''med-1''" and m = example_medication
        and now = 63840902400000000 and s = example_scheduler and k' = "''fup-1''"
        and f = example_followup] a b by simp
  show ?thesis using c
    by (simp add: get_active_schedules_def example_scheduler_def example_medication_def)
qed

section \<open>Adding a medication schedule\<close>

lemma parse_at_time_bad: "parse_at_time ''25:99'' = Inl ScheduleValueError"
  by code_simp

lemma parse_at_time_0800: "parse_at_time ''08:00'' = Inr 28800000000"
  by code_simp

lemma add_days_example:
  "add_days 63840902400000000 0 = Inr 63840902400000000"
  "add_days 63840902400000000 7 = Inr 63841507200000000"
  "add_days 63840902400000000 (- 3) = Inr 63840643200000000"
  by (simp_all add: add_days_def day_us_def max_datetime_def)

lemma new_scheduler_absent:
  "new_scheduler Absent js =
     \<lparr>medication_schedules = [], followup_schedules = [], schedules_json = Absent, jobs = js\<rparr>"
  by (simp add: new_scheduler_def load_schedules_def load_body_def)

text \<open>
  Claim C6, as stated, fails: a time that is no wall-clock time, a duration of zero days
  and a negative duration are all accepted. The call returns the new id, the schedule is
  in the registry and the snapshot file is written; for the malformed time no job is
  registered, so the stored schedule never fires.
\<close>

theorem add_medication_unvalidated_counterexample:
  "(let r = add_medication_schedule 63840902400000000 ''id-1'' ''Lisinopril'' ''10mg''
              [''25:99''] 7 None [] None (new_scheduler Absent [])
    in fst r = Inr ''id-1'' \<and> fst r \<noteq> Inl ValidationError \<and>
       map (\<lambda>kv. med_times (snd kv)) (medication_schedules (snd r)) = [[''25:99'']] \<and>
       jobs (snd r) = [] \<and>
       schedules_json (snd r) =
         Json (snapshot (medication_schedules (snd r)) (followup_schedules (snd r)))) \<and>
   (let r = add_medication_schedule 63840902400000000 ''id-2'' ''Lisinopril'' ''10mg''
              [''08:00''] 0 None [] None (new_scheduler Absent [])
    in fst r = Inr ''id-2'' \<and> fst r \<noteq> Inl ValidationError \<and>
       map (\<lambda>kv. duration_days (snd kv)) (medication_schedules (snd r)) = [0] \<and>
       schedules_json (snd r) =
         Json (snapshot (medication_schedules (snd r)) (followup_schedules (snd r)))) \<and>
   (let r = add_medication_schedule 63840902400000000 ''id-3'' ''Lisinopril'' ''10mg''
              [''08:00''] (- 3) None [] None (new_scheduler Absent [])
    in fst r = Inr ''id-3'' \<and>
       map (\<lambda>kv. (duration_days (snd kv), end_date (snd kv))) (medication_schedules (snd r))
         = [(- 3, 63840643200000000)])"
  by (simp add: add_medication_schedule_def new_scheduler_absent add_days_example
      schedule_medication_reminders_def save_schedules_def parse_at_time_bad
      parse_at_time_0800 Let_def)

text \<open>
  Claim C6, amended. The add-medication-schedule operation validates neither the times
  nor the duration. Its only failure is the \<^verbatim>\<open>OverflowError\<close> of computing the end
  date, raised before any change of state, so that nothing is added or persisted then.
  In every other case, whatever the times and the duration are, the call returns the id,
  the registry maps the id to a new active schedule with the fields given and the end
  date \<open>start + duration\<close> days, the snapshot file is written and the follow-up registry
  is unchanged.
\<close>

theorem add_medication_schedule_behaviour:
  "(let start = (case start_arg of None \<Rightarrow> now | Some d \<Rightarrow> d);
        r = add_medication_schedule now sid name dos ts duration start_arg nts chat s
    in case add_days start duration of
         Inl e \<Rightarrow> r = (Inl e, s)
       | Inr finish \<Rightarrow>
           fst r = Inr sid \<and>
           map_of (medication_schedules (snd r)) sid =
             Some \<lparr>med_id = sid, medication_name = name, dosage = dos, med_times = ts,
                   duration_days = duration, start_date = start, end_date = finish,
                   additional_notes = nts, med_is_active = True, med_created_at = now,
                   chat_id = (if chat = Some [] then None else chat)\<rparr> \<and>
           schedules_json (snd r) =
             Json (snapshot (medication_schedules (snd r)) (followup_schedules (snd r))) \<and>
           followup_schedules (snd r) = followup_schedules s)"
  by (auto simp: add_medication_schedule_def schedule_medication_reminders_def
      save_schedules_def map_of_dict_set Let_def split: sum.splits option.splits)

theorem add_medication_schedule_behaviour_witness:
  "add_days 63840902400000000 0 = Inr 63840902400000000 \<and>
   fst (add_medication_schedule 63840902400000000 ''id-1'' ''Lisinopril'' ''10mg''
          [''25:99''] 0 None [] (Some ''12345'') example_scheduler) = Inr ''id-1'' \<and>
   map_of (medication_schedules (snd (add_medication_schedule 63840902400000000 ''id-1''
          ''Lisinopril'' ''10mg'' [''25:99''] 0 None [] (Some ''12345'') example_scheduler)))
     ''id-1'' =
     Some \<lparr>med_id = ''id-1'', medication_name = ''Lisinopril'', dosage = ''10mg'',
           med_times = [''25:99''], duration_days = 0, start_date = 63840902400000000,
           end_date = 63840902400000000, additional_notes = [], med_is_active = True,
           med_created_at = 63840902400000000, chat_id = Some ''12345''\<rparr>"
  using add_medication_schedule_behaviour [where now = 63840902400000000 and sid = "''id-1''"
      and name = "''Lisinopril''" and dos = "''10mg''" and ts = "[''25:99'']"
      and duration = 0 and start_arg = None and nts = "[]" and chat = "Some ''12345''"
      and s = example_scheduler]
  by (simp add: add_days_example Let_def)

section \<open>Loading the snapshot\<close>

lemma all_of_as_str: "all_of as_str (map JStr xs) = Inr xs"
  by (induction xs) (simp_all add: as_str_def bindE_def)

lemma all_of_as_int: "all_of as_int (map JNum xs) = Inr xs"
  by (induction xs) (simp_all add: as_int_def bindE_def)

lemma med_from_json_to_json:
  assumes "fromisoformat (isoformat (start_date m)) = Inr (start_date m)"
    and "fromisoformat (isoformat (end_date m)) = Inr (end_date m)"
    and "fromisoformat (isoformat (med_created_at m)) = Inr (med_created_at m)"
  shows "med_from_json (med_to_json m) = Inr (m\<lparr>chat_id := None\<rparr>)"
  using assms
  by (simp add: med_from_json_def med_to_json_def subscript_def bindE_def as_str_def
      as_int_def as_bool_def as_list_def as_datetime_def all_of_as_str)

lemma fup_from_json_to_json:
  assumes "fromisoformat (isoformat (appointment_date f)) = Inr (appointment_date f)"
    and "fromisoformat (isoformat (fup_created_at f)) = Inr (fup_created_at f)"
  shows "fup_from_json (fup_to_json f) = Inr f"
  using assms
  by (simp add: fup_from_json_def fup_to_json_def subscript_def bindE_def as_str_def
      as_int_def as_bool_def as_list_def as_datetime_def all_of_as_int)

lemma iso_example:
  "fromisoformat (isoformat 63840902400000000) = Inr 63840902400000000"
  "fromisoformat (isoformat 63840988800000000) = Inr 63840988800000000"
  "fromisoformat (isoformat 63841789800000000) = Inr 63841789800000000"
  by code_simp+

lemma example_medication_roundtrip:
  "med_from_json (med_to_json example_medication) = Inr (example_medication\<lparr>chat_id := None\<rparr>)"
  by (rule med_from_json_to_json) (simp_all add: example_medication_def iso_example)

lemma example_followup_roundtrip:
  "fup_from_json (fup_to_json example_followup) = Inr example_followup"
  by (rule fup_from_json_to_json) (simp_all add: example_followup_def iso_example)






section \<open>Saving and loading again\<close>

text \<open>
  Claim C4 fails on the recipient. \<^verbatim>\<open>_save_schedules\<close> writes every field of a
  medication schedule except \<^verbatim>\<open>chat_id\<close>, and \<^verbatim>\<open>_load_schedules\<close> builds the
  schedule without it: a schedule saved with the recipient \<^verbatim>\<open>12345\<close> comes back with
  no recipient, all its other fields and the follow-up registry being as they were.
\<close>

theorem save_load_loses_chat_id:
  "chat_id example_medication = Some ''12345'' \<and>
   medication_schedules example_scheduler = [(''med-1'', example_medication)] \<and>
   medication_schedules (new_scheduler (schedules_json (save_schedules example_scheduler)) [])
     = [(''med-1'', example_medication\<lparr>chat_id := None\<rparr>)] \<and>
   followup_schedules (new_scheduler (schedules_json (save_schedules example_scheduler)) [])
     = followup_schedules example_scheduler \<and>
   medication_schedules (new_scheduler (schedules_json (save_schedules example_scheduler)) [])
     \<noteq> medication_schedules example_scheduler"
proof -
  have saved: "schedules_json (save_schedules example_scheduler) =
      Json (JObj [(''medications'', JArr [med_to_json example_medication]),
                  (''followups'', JArr [fup_to_json example_followup])])"
    by (simp add: save_schedules_def snapshot_def example_scheduler_def)
  have loaded: "new_scheduler (schedules_json (save_schedules example_scheduler)) [] =
      \<lparr>medication_schedules = [(med_id (example_medication\<lparr>chat_id := None\<rparr>),
                                 example_medication\<lparr>chat_id := None\<rparr>)],
       followup_schedules = [(fup_id example_followup, example_followup)],
       schedules_json = schedules_json (save_schedules example_scheduler), jobs = []\<rparr>"
    unfolding saved
    by (simp add: new_scheduler_def load_schedules_def load_body_def get_or_empty_def
        iterate_def bindE_def example_medication_roundtrip example_followup_roundtrip)
  have ids: "med_id (example_medication\<lparr>chat_id := None\<rparr>) = ''med-1''"
    "fup_id example_followup = ''fup-1''"
    by (simp_all add: example_medication_def example_followup_def)
  have differ: "example_medication\<lparr>chat_id := None\<rparr> \<noteq> example_medication"
    by (simp add: example_medication_def)
  show ?thesis
    unfolding loaded ids using differ
    by (simp add: example_scheduler_def) (simp add: example_medication_def)
qed

section \<open>Facts about the polling loop\<close>


lemma run_job_jobs: "jobs (fst (run_job now j s)) = jobs s"
  by (cases "job_func j")
     (auto simp: run_job_def send_medication_reminder_def send_followup_reminder_def
       save_schedules_def split: option.splits sum.splits)


lemma run_jobs_Cons:
  "run_jobs now (j # js) s =
     (fst (run_jobs now js (fst (run_job now j s))),
      map (\<lambda>d. (j, d)) (snd (run_job now j s)) @ snd (run_jobs now js (fst (run_job now j s))))"
  by (simp split: prod.splits)

lemma run_jobs_jobs: "jobs (fst (run_jobs now js s)) = jobs s"
  by (induction js arbitrary: s) (simp_all add: run_jobs_Cons run_job_jobs del: run_jobs.simps(2))



lemma run_jobs_log_jobs:
  "jd \<in> set (snd (run_jobs now js s)) \<Longrightarrow> fst jd \<in> set js"
  by (induction js arbitrary: s)
     (auto simp: run_jobs_Cons simp del: run_jobs.simps(2))

lemma run_pending_eq:
  "run_pending now s =
     (fst (run_jobs now (sort_key next_run (filter (should_run now) (jobs s))) s)
        \<lparr>jobs := map (\<lambda>j. if should_run now j then reschedule now j else j) (jobs s)\<rparr>,
      snd (run_jobs now (sort_key next_run (filter (should_run now) (jobs s))) s))"
proof -
  obtain s1 outs where
    r: "run_jobs now (sort_key next_run (filter (should_run now) (jobs s))) s = (s1, outs)"
    by (cases "run_jobs now (sort_key next_run (filter (should_run now) (jobs s))) s")
  have "jobs s1 = jobs s"
    using run_jobs_jobs [of now "sort_key next_run (filter (should_run now) (jobs s))" s] r
    by simp
  then show ?thesis by (simp add: run_pending_def r)
qed

lemma run_scheduler_Cons:
  "run_scheduler (now # later) s =
     (fst (run_scheduler later (fst (run_pending now s))),
      map (\<lambda>jd. (now, jd)) (snd (run_pending now s))
        @ snd (run_scheduler later (fst (run_pending now s))))"
  by (simp split: prod.splits)


lemma run_pending_log_due:
  "jd \<in> set (snd (run_pending now s)) \<Longrightarrow> fst jd \<in> set (jobs s) \<and> should_run now (fst jd)"
  using run_jobs_log_jobs [of jd now "sort_key next_run (filter (should_run now) (jobs s))" s]
  by (simp add: run_pending_eq)








section \<open>One delivery per job and day\<close>











section \<open>Follow-up reminders\<close>














section \<open>Inactivity is absorbing\<close>




















































section \<open>No reminder after the end date\<close>

lemma send_medication_reminder_end_date:
  "map_option end_date (map_of (medication_schedules (fst (send_medication_reminder now sid' s))) sid)
     = map_option end_date (map_of (medication_schedules s) sid)"
  by (auto simp: send_medication_reminder_def save_schedules_def map_of_dict_set
      split: option.splits)

lemma run_job_end_date:
  "map_option end_date (map_of (medication_schedules (fst (run_job now j s))) sid)
     = map_option end_date (map_of (medication_schedules s) sid)"
  by (cases "job_func j")
     (simp_all add: run_job_def send_medication_reminder_end_date send_followup_reminder_state)

lemma run_jobs_end_date:
  "map_option end_date (map_of (medication_schedules (fst (run_jobs now js s))) sid)
     = map_option end_date (map_of (medication_schedules s) sid)"
  by (induction js arbitrary: s)
     (simp_all add: run_jobs_Cons run_job_end_date del: run_jobs.simps(2))

lemma run_pending_end_date:
  "map_option end_date (map_of (medication_schedules (fst (run_pending now s))) sid)
     = map_option end_date (map_of (medication_schedules s) sid)"
  by (simp add: run_pending_eq run_jobs_end_date)

lemma send_medication_reminder_in_time:
  "snd (send_medication_reminder now sid s) \<noteq> [] \<Longrightarrow>
   \<exists>E. map_option end_date (map_of (medication_schedules s) sid) = Some E \<and> now \<le> E"
  by (auto simp: send_medication_reminder_def split: option.splits if_splits)

lemma run_jobs_medication_in_time:
  "jd \<in> set (snd (run_jobs now js s)) \<Longrightarrow> job_func (fst jd) = SendMedicationReminder sid \<Longrightarrow>
   \<exists>E. map_option end_date (map_of (medication_schedules s) sid) = Some E \<and> now \<le> E"
proof (induction js arbitrary: s)
  case Nil
  then show ?case by simp
next
  case (Cons j js)
  let ?s1 = "fst (run_job now j s)"
  from Cons.prems(1) consider
    (here) "jd \<in> set (map (\<lambda>d. (j, d)) (snd (run_job now j s)))"
    | (there) "jd \<in> set (snd (run_jobs now js ?s1))"
    by (auto simp: run_jobs_Cons simp del: run_jobs.simps(2))
  then show ?case
  proof cases
    case here
    then have "fst jd = j" and "snd (run_job now j s) \<noteq> []" by auto
    then have "snd (send_medication_reminder now sid s) \<noteq> []"
      using Cons.prems(2) by (simp add: run_job_def)
    then show ?thesis by (rule send_medication_reminder_in_time)
  next
    case there
    then have "\<exists>E. map_option end_date (map_of (medication_schedules ?s1) sid) = Some E \<and> now \<le> E"
      using Cons.IH Cons.prems(2) by blast
    then show ?thesis by (simp add: run_job_end_date)
  qed
qed

lemma run_scheduler_medication_in_time:
  "e \<in> set (snd (run_scheduler ticks s)) \<Longrightarrow>
   job_func (fst (snd e)) = SendMedicationReminder sid \<Longrightarrow>
   \<exists>E. map_option end_date (map_of (medication_schedules s) sid) = Some E \<and> fst e \<le> E"
proof (induction ticks arbitrary: s)
  case Nil
  then show ?case by simp
next
  case (Cons now later)
  let ?s1 = "fst (run_pending now s)"
  from Cons.prems(1) consider
    (here) "e \<in> set (map (\<lambda>jd. (now, jd)) (snd (run_pending now s)))"
    | (there) "e \<in> set (snd (run_scheduler later ?s1))"
    by (auto simp: run_scheduler_Cons simp del: run_scheduler.simps(2))
  then show ?case
  proof cases
    case here
    then have t: "fst e = now" and
      "snd e \<in> set (snd (run_jobs now (sort_key next_run (filter (should_run now) (jobs s))) s))"
      by (auto simp: run_pending_eq)
    then show ?thesis using run_jobs_medication_in_time Cons.prems(2) by blast
  next
    case there
    then have "\<exists>E. map_option end_date (map_of (medication_schedules ?s1) sid) = Some E \<and> fst e \<le> E"
      using Cons.IH Cons.prems(2) by blast
    then show ?thesis by (simp add: run_pending_end_date)
  qed
qed

text \<open>
  Claim C1. No reminder of a medication schedule is delivered by the polling loop at a
  moment after the schedule's \<^verbatim>\<open>end_date\<close>. When the dispatch routine of the schedule
  runs at such a moment, it delivers nothing; the schedule is inactive afterwards and, if
  it was active, the snapshot file holds the registries as they are then. From then on
  neither a direct call of the dispatch routine nor any run of the polling loop delivers
  a reminder for it.
\<close>

theorem expired_medication_is_deactivated_not_delivered:
  assumes "map_of (medication_schedules s) sid = Some m"
  shows "(\<forall>ticks. \<forall>e \<in> set (snd (run_scheduler ticks s)).
            job_func (fst (snd e)) = SendMedicationReminder sid \<longrightarrow> fst e \<le> end_date m) \<and>
         (now > end_date m \<longrightarrow>
            snd (send_medication_reminder now sid s) = [] \<and>
            (let s' = fst (send_medication_reminder now sid s)
             in map_of (medication_schedules s') sid = Some (m\<lparr>med_is_active := False\<rparr>) \<and>
                (if med_is_active m
                 then schedules_json s' =
                        Json (snapshot (medication_schedules s') (followup_schedules s'))
                 else s' = s) \<and>
                (\<forall>now'. snd (send_medication_reminder now' sid s') = []) \<and>
                (\<forall>ticks. \<forall>e \<in> set (snd (run_scheduler ticks s')).
                    job_func (fst (snd e)) \<noteq> SendMedicationReminder sid)))"
proof -
  let ?s' = "fst (send_medication_reminder now sid s)"
  have in_time: "\<forall>ticks. \<forall>e \<in> set (snd (run_scheduler ticks s)).
            job_func (fst (snd e)) = SendMedicationReminder sid \<longrightarrow> fst e \<le> end_date m"
    using run_scheduler_medication_in_time [of _ _ s sid] assms by fastforce
  have expired: "snd (send_medication_reminder now sid s) = [] \<and>
            (let s' = fst (send_medication_reminder now sid s)
             in map_of (medication_schedules s') sid = Some (m\<lparr>med_is_active := False\<rparr>) \<and>
                (if med_is_active m
                 then schedules_json s' =
                        Json (snapshot (medication_schedules s') (followup_schedules s'))
                 else s' = s) \<and>
                (\<forall>now'. snd (send_medication_reminder now' sid s') = []) \<and>
                (\<forall>ticks. \<forall>e \<in> set (snd (run_scheduler ticks s')).
                    job_func (fst (snd e)) \<noteq> SendMedicationReminder sid))"
    if late: "now > end_date m"
  proof -
    have quiet: "snd (send_medication_reminder now sid s) = []"
      using assms late by (simp add: send_medication_reminder_def)
    have entry: "map_of (medication_schedules ?s') sid = Some (m\<lparr>med_is_active := False\<rparr>)"
      using assms late
      by (simp add: send_medication_reminder_def save_schedules_def map_of_dict_set)
    have saved: "if med_is_active m
        then schedules_json ?s' = Json (snapshot (medication_schedules ?s') (followup_schedules ?s'))
        else ?s' = s"
      using assms late by (simp add: send_medication_reminder_def save_schedules_def)
    have off: "med_inactive sid ?s'"
      using entry by (simp add: med_inactive_def)
    have later: "\<forall>now'. snd (send_medication_reminder now' sid ?s') = []"
      using entry by (simp add: send_medication_reminder_def)
    have loop: "\<forall>ticks. \<forall>e \<in> set (snd (run_scheduler ticks ?s')).
                   job_func (fst (snd e)) \<noteq> SendMedicationReminder sid"
      using run_scheduler_inactive [OF off] by blast
    show ?thesis using quiet entry saved later loop by (simp add: Let_def)
  qed
  show ?thesis using in_time expired by blast
qed

theorem expired_medication_witness:
  "map_of (medication_schedules example_scheduler) ''med-1'' = Some example_medication \<and>
   63841000000000000 > end_date example_medication \<and>
   snd (send_medication_reminder 63841000000000000 ''med-1'' example_scheduler) = [] \<and>
   map_of (medication_schedules
             (fst (send_medication_reminder 63841000000000000 ''med-1'' example_scheduler)))
     ''med-1'' = Some (example_medication\<lparr>med_is_active := False\<rparr>)"
proof -
  have h1: "map_of (medication_schedules example_scheduler) ''med-1'' = Some example_medication"
    by (simp add: example_scheduler_def)
  have h2: "63841000000000000 > end_date example_medication"
    by (simp add: example_medication_def)
  show ?thesis
    using expired_medication_is_deactivated_not_delivered [OF h1, of 63841000000000000] h1 h2
    by (simp add: Let_def)
qed

end
